theory Spec2Isabelle
  imports Complex_Main
begin

section \<open>Python values and strings\<close>

text \<open>
  The program is \<^verbatim>\<open>registro_studenti_ai.py\<close>. A Python \<^verbatim>\<open>str\<close> is modelled as a
  \<^typ>\<open>string\<close>: every character stands for the code point of the same number
  (U+0000 to U+00FF). Code points above U+00FF are not represented.
  Exceptions are values of \<open>py_exception\<close>; a function that can raise returns
  \<open>py_exception + 'a\<close>, with \<open>Inl\<close> for the exception.
\<close>

datatype py_exception =
    FileNotFoundError | JSONDecodeError | UnicodeDecodeError
  | ValueError | TypeError | AttributeError | KeyError | EOFError | OverflowError

text \<open>
  The values that \<^verbatim>\<open>json.load\<close> produces and that the program builds. A Python
  \<^verbatim>\<open>float\<close> is modelled by the real number it denotes; infinities and NaN are not
  represented, and no arithmetic on floats is computed in this model. A \<^verbatim>\<open>dict\<close> is an association list in insertion order.
\<close>

datatype json =
    JNull
  | JBool bool
  | JInt int
  | JFloat real
  | JStr string
  | JArr "json list"
  | JObj "(string \<times> json) list"

subsection \<open>Character classes and string methods\<close>

definition code :: "char \<Rightarrow> nat" where
  "code c = of_char c"

text \<open>\<^verbatim>\<open>str.isspace\<close> on one character, for the code points below 256.\<close>

definition py_isspace :: "char \<Rightarrow> bool" where
  "py_isspace c = (let n = code c in (9 \<le> n \<and> n \<le> 13) \<or> (28 \<le> n \<and> n \<le> 32) \<or> n = 133 \<or> n = 160)"

text \<open>The characters \<^verbatim>\<open>int()\<close> accepts as digits: \<^verbatim>\<open>0\<close> to \<^verbatim>\<open>9\<close> below U+0100.\<close>

definition is_decimal :: "char \<Rightarrow> bool" where
  "is_decimal c = (let n = code c in 48 \<le> n \<and> n \<le> 57)"

text \<open>
  \<^verbatim>\<open>str.isdigit\<close> on one character: the decimal digits and the superscript digits
  U+00B2, U+00B3 and U+00B9, which have Numeric_Type=Digit.
\<close>

definition is_digit_char :: "char \<Rightarrow> bool" where
  "is_digit_char c = (let n = code c in (48 \<le> n \<and> n \<le> 57) \<or> n = 178 \<or> n = 179 \<or> n = 185)"

text \<open>\<^verbatim>\<open>s.isdigit()\<close>: non-empty and every character a digit.\<close>

definition isdigit :: "string \<Rightarrow> bool" where
  "isdigit s = (s \<noteq> [] \<and> list_all is_digit_char s)"

text \<open>\<^verbatim>\<open>s.strip()\<close>: whitespace removed at both ends.\<close>

definition strip :: "string \<Rightarrow> string" where
  "strip s = rev (dropWhile py_isspace (rev (dropWhile py_isspace s)))"

text \<open>\<^verbatim>\<open>s.split(",")\<close>: the pieces between the separators; never an empty list.\<close>

fun split :: "char \<Rightarrow> string \<Rightarrow> string list" where
  "split sep [] = [[]]"
| "split sep (c # cs) =
     (if c = sep then [] # split sep cs
      else (case split sep cs of
              [] \<Rightarrow> [[c]]
            | p # ps \<Rightarrow> (c # p) # ps))"

text \<open>The value of a string of decimal digits, most significant digit first.\<close>

definition digits_value :: "string \<Rightarrow> int" where
  "digits_value s = foldl (\<lambda>acc c. 10 * acc + (int (code c) - 48)) 0 s"

text \<open>
  \<^verbatim>\<open>int(s)\<close> in base 10. Whitespace at both ends is skipped (for \<^verbatim>\<open>int\<close> the
  characters U+001C to U+001F are not whitespace); then come an optional sign and
  decimal digits, where single underscores may stand between digits. A string with more
  than 4300 digits is refused (the default of \<^verbatim>\<open>sys.set_int_max_str_digits\<close>; the sign
  and the underscores are not counted). Every failure is ValueError.
\<close>

definition int_isspace :: "char \<Rightarrow> bool" where
  "int_isspace c = (let n = code c in (9 \<le> n \<and> n \<le> 13) \<or> n = 32 \<or> n = 133 \<or> n = 160)"

fun int_body :: "string \<Rightarrow> bool" where
  "int_body [] = False"
| "int_body [c] = is_decimal c"
| "int_body (c # d # cs) =
     (is_decimal c \<and>
      (if d = CHR ''_'' then cs \<noteq> [] \<and> int_body cs else int_body (d # cs)))"

definition max_str_digits :: nat where
  "max_str_digits = 4300"

definition int_unsigned :: "string \<Rightarrow> py_exception + int" where
  "int_unsigned s =
     (let digits = filter (\<lambda>c. c \<noteq> CHR ''_'') s in
      if int_body s \<and> length digits \<le> max_str_digits then Inr (digits_value digits)
      else Inl ValueError)"

definition py_int :: "string \<Rightarrow> py_exception + int" where
  "py_int s =
     (case rev (dropWhile int_isspace (rev (dropWhile int_isspace s))) of
        [] \<Rightarrow> Inl ValueError
      | c # cs \<Rightarrow>
          if c = CHR ''-'' then (case int_unsigned cs of Inl e \<Rightarrow> Inl e | Inr n \<Rightarrow> Inr (- n))
          else if c = CHR ''+'' then int_unsigned cs
          else int_unsigned (c # cs))"

section \<open>Grade parsing in \<^verbatim>\<open>aggiungi_studente\<close>\<close>

text \<open>
  The list comprehension of lines 141 to 145. For each piece \<open>v\<close> in order:
  the condition \<^verbatim>\<open>v.strip().isdigit() and 18 <= int(v.strip()) <= 30\<close> is
  evaluated, and \<^verbatim>\<open>int\<close> may raise ValueError, which ends the whole comprehension.
\<close>

fun comprehension_voti :: "string list \<Rightarrow> py_exception + int list" where
  "comprehension_voti [] = Inr []"
| "comprehension_voti (v # vs) =
     (if isdigit (strip v) then
        (case py_int (strip v) of
           Inl e \<Rightarrow> Inl e
         | Inr n \<Rightarrow>
             if 18 \<le> n \<and> n \<le> 30 then
               (case comprehension_voti vs of
                  Inl e \<Rightarrow> Inl e
                | Inr ns \<Rightarrow> Inr (n # ns))
             else comprehension_voti vs)
      else comprehension_voti vs)"

text \<open>Lines 134 to 147: the comprehension inside \<^verbatim>\<open>try\<close>, with \<^verbatim>\<open>except ValueError: voti = []\<close>.\<close>

definition parse_voti :: "string \<Rightarrow> int list" where
  "parse_voti voti_input =
     (case comprehension_voti (split CHR '','' voti_input) of
        Inl e \<Rightarrow> []
      | Inr voti \<Rightarrow> voti)"

section \<open>\<^verbatim>\<open>calcola_media\<close>\<close>

text \<open>
  What \<^verbatim>\<open>for v in x\<close> iterates over: the elements of a list, the keys of a dict, the
  characters of a str. Any other value raises TypeError.
\<close>

fun py_iter :: "json \<Rightarrow> py_exception + json list" where
  "py_iter (JArr xs) = Inr xs"
| "py_iter (JObj kvs) = Inr (map (\<lambda>kv. JStr (fst kv)) kvs)"
| "py_iter (JStr s) = Inr (map (\<lambda>c. JStr [c]) s)"
| "py_iter v = Inl TypeError"

text \<open>
  \<^verbatim>\<open>isinstance(v, (int, float))\<close>. In Python \<^verbatim>\<open>bool\<close> is a subclass of \<^verbatim>\<open>int\<close>, so
  \<^verbatim>\<open>True\<close> and \<^verbatim>\<open>False\<close> pass the test and count as 1 and 0 in a sum.
\<close>

fun is_int_or_float :: "json \<Rightarrow> bool" where
  "is_int_or_float (JInt n) = True"
| "is_int_or_float (JFloat r) = True"
| "is_int_or_float (JBool b) = True"
| "is_int_or_float v = False"

fun is_float :: "json \<Rightarrow> bool" where
  "is_float (JFloat r) = True"
| "is_float v = False"

text \<open>The value of an int or a bool as an integer.\<close>

fun int_value :: "json \<Rightarrow> int" where
  "int_value (JInt n) = n"
| "int_value (JBool b) = (if b then 1 else 0)"
| "int_value v = 0"

text \<open>
  A number too large for a float: rounded to the nearest double it would reach
  \<open>2 ^ 1024\<close>. Converting such an int to a float, or dividing two ints with such a
  quotient, raises OverflowError.
\<close>

definition too_large :: "real \<Rightarrow> bool" where
  "too_large r = (2 ^ 1024 - 2 ^ 970 \<le> \<bar>r\<bar>)"

text \<open>
  \<^verbatim>\<open>sum(xs)\<close> for a list of ints, bools and floats, from the left. The sum so far is
  \<open>Some s\<close> while it is the exact int \<open>s\<close>, and \<open>None\<close> once it is a float: the
  value of a float sum is not computed here. Adding an int and a float converts the int
  to a float, which raises OverflowError when the int is too large.
\<close>

fun py_sum :: "int option \<Rightarrow> json list \<Rightarrow> py_exception + int option" where
  "py_sum acc [] = Inr acc"
| "py_sum (Some s) (v # vs) =
     (if is_float v then
        (if too_large (real_of_int s) then Inl OverflowError else py_sum None vs)
      else py_sum (Some (s + int_value v)) vs)"
| "py_sum None (v # vs) =
     (if is_float v then py_sum None vs
      else if too_large (real_of_int (int_value v)) then Inl OverflowError
      else py_sum None vs)"

text \<open>
  The float that \<open>calcola_media\<close> returns: the \<^verbatim>\<open>0.0\<close> of line 52; the double nearest
  to the quotient of an exact int sum by the number of elements; or, when a float is among
  the elements, the result of \<^verbatim>\<open>sum(voti_validi) / len(voti_validi)\<close> in double
  arithmetic, which is named by its operands and not computed.
\<close>

datatype media =
    MediaZero
  | MediaInt int nat
  | MediaFloat "json list"

text \<open>Lines 51 and 52.\<close>

definition calcola_media :: "json \<Rightarrow> py_exception + media" where
  "calcola_media voti =
     (case py_iter voti of
        Inl e \<Rightarrow> Inl e
      | Inr vs \<Rightarrow>
          (let voti_validi = filter is_int_or_float vs in
           if voti_validi \<noteq> [] then
             (case py_sum (Some 0) voti_validi of
                Inl e \<Rightarrow> Inl e
              | Inr None \<Rightarrow> Inr (MediaFloat voti_validi)
              | Inr (Some s) \<Rightarrow>
                  if too_large (real_of_int s / real (length voti_validi))
                  then Inl OverflowError
                  else Inr (MediaInt s (length voti_validi)))
           else Inr MediaZero))"

section \<open>The store file, the console and the operations\<close>

text \<open>
  The state of a path, as \<^verbatim>\<open>open\<close> and \<^verbatim>\<open>json.load\<close> see it: no file; a file
  whose bytes are not UTF-8, on which reading raises UnicodeDecodeError; a file whose
  text \<^verbatim>\<open>json.load\<close> rejects with JSONDecodeError; a file whose text decodes to a
  value. \<^verbatim>\<open>json.dump\<close> leaves a file that decodes to the value dumped. The text itself
  (indentation, escapes) is not represented.
\<close>

datatype file_state = Missing | NotUtf8 | NotJson | Holds json

text \<open>
  What \<^verbatim>\<open>print\<close> writes, one constructor for each call, with the line of the source
  and the values formatted into the message. The prompts of \<^verbatim>\<open>input\<close> are not recorded.
  The console is taken to accept every character, so that \<^verbatim>\<open>print\<close> itself does not
  raise.
\<close>

datatype message =
    LoadError                        \<comment> \<open>line 32\<close>
  | ListHeader                       \<comment> \<open>line 68\<close>
  | StudentLine json json json media \<comment> \<open>line 75: matricola, nome, cognome, media\<close>
  | EmptyIdWarning                   \<comment> \<open>line 118\<close>
  | EmptyFirstNameWarning            \<comment> \<open>line 125\<close>
  | EmptyLastNameWarning             \<comment> \<open>line 132\<close>
  | NoValidGrades                    \<comment> \<open>line 151\<close>
  | StudentAdded string string       \<comment> \<open>line 176\<close>
  | StudentNotFound string           \<comment> \<open>lines 205 and 261\<close>
  | InvalidGrade                     \<comment> \<open>line 213\<close>
  | GradeAdded int json json         \<comment> \<open>line 226\<close>
  | EmptyRoster                      \<comment> \<open>line 246\<close>
  | Cancelled                        \<comment> \<open>line 271\<close>
  | StudentRemoved json json         \<comment> \<open>line 282: nome, cognome\<close>

record world =
  files :: "string \<Rightarrow> file_state"
  stdin :: "string list"
  stdout :: "message list"

definition py_print :: "message \<Rightarrow> world \<Rightarrow> world" where
  "py_print m w = w\<lparr>stdout := stdout w @ [m]\<rparr>"

text \<open>\<^verbatim>\<open>input()\<close>: the next line of the console, EOFError when there is none.\<close>

definition py_input :: "world \<Rightarrow> py_exception + (string \<times> world)" where
  "py_input w =
     (case stdin w of
        [] \<Rightarrow> Inl EOFError
      | l # ls \<Rightarrow> Inr (l, w\<lparr>stdin := ls\<rparr>))"

text \<open>
  Lines 28 to 33. Only JSONDecodeError and FileNotFoundError are caught; any other
  exception leaves the function.
\<close>

definition leggi_studenti_da_file :: "string \<Rightarrow> world \<Rightarrow> py_exception + (json \<times> world)" where
  "leggi_studenti_da_file percorso_file w =
     (case files w percorso_file of
        Holds v \<Rightarrow> Inr (v, w)
      | Missing \<Rightarrow> Inr (JArr [], py_print LoadError w)
      | NotJson \<Rightarrow> Inr (JArr [], py_print LoadError w)
      | NotUtf8 \<Rightarrow> Inl UnicodeDecodeError)"

text \<open>
  Turning an int of more than 4300 digits into text raises ValueError, in \<^verbatim>\<open>str\<close>,
  in an f-string and in \<^verbatim>\<open>json.dump\<close>, also when the int sits inside a list or a dict.
  \<open>printable v\<close> says that \<open>v\<close> holds no such int. The values that
  \<^verbatim>\<open>json.load\<close> returns are printable.
\<close>

definition str_limit :: int where
  "str_limit = 10 ^ 4300"

fun printable :: "json \<Rightarrow> bool" where
  "printable (JInt n) = (\<bar>n\<bar> < str_limit)"
| "printable (JArr xs) = list_all printable xs"
| "printable (JObj kvs) = list_all (\<lambda>kv. printable (snd kv)) kvs"
| "printable v = True"

text \<open>A value formatted into an f-string.\<close>

definition py_str :: "json \<Rightarrow> py_exception + json" where
  "py_str v = (if printable v then Inr v else Inl ValueError)"

text \<open>
  \<^verbatim>\<open>with open(percorso_file, "w", encoding="utf-8") as file: json.dump(studenti, file, ...)\<close>.
  \<open>salva\<close> is the world after a dump that succeeded: the file is replaced as a
  whole. \<open>scrivi\<close> is the statement itself, which raises when the value is not
  printable.
\<close>

definition salva :: "string \<Rightarrow> json \<Rightarrow> world \<Rightarrow> world" where
  "salva percorso_file studenti w = w\<lparr>files := (files w)(percorso_file := Holds studenti)\<rparr>"

definition scrivi :: "string \<Rightarrow> json \<Rightarrow> world \<Rightarrow> py_exception + world" where
  "scrivi percorso_file studenti w =
     (if printable studenti then Inr (salva percorso_file studenti w) else Inl ValueError)"

text \<open>\<^verbatim>\<open>d.get(k)\<close>: AttributeError when \<open>d\<close> is not a dict.\<close>

fun py_get :: "json \<Rightarrow> string \<Rightarrow> py_exception + json option" where
  "py_get (JObj kvs) k = Inr (map_of kvs k)"
| "py_get v k = Inl AttributeError"

definition get_default :: "json \<Rightarrow> string \<Rightarrow> json \<Rightarrow> py_exception + json" where
  "get_default d k dflt =
     (case py_get d k of
        Inl e \<Rightarrow> Inl e
      | Inr None \<Rightarrow> Inr dflt
      | Inr (Some v) \<Rightarrow> Inr v)"

text \<open>The truth value of a Python object, as \<^verbatim>\<open>not x\<close> tests it.\<close>

fun truthy :: "json \<Rightarrow> bool" where
  "truthy JNull = False"
| "truthy (JBool b) = b"
| "truthy (JInt n) = (n \<noteq> 0)"
| "truthy (JFloat r) = (r \<noteq> 0)"
| "truthy (JStr s) = (s \<noteq> [])"
| "truthy (JArr xs) = (xs \<noteq> [])"
| "truthy (JObj kvs) = (kvs \<noteq> [])"

subsection \<open>\<^verbatim>\<open>stampa_studenti\<close> and \<^verbatim>\<open>esegui_processo\<close>\<close>

text \<open>Lines 70 to 75 for one student: the values formatted into the printed line.\<close>

definition riga_studente :: "json \<Rightarrow> py_exception + message" where
  "riga_studente studente =
     (case get_default studente ''matricola'' (JStr ''N/D'') of
        Inl e \<Rightarrow> Inl e
      | Inr matricola \<Rightarrow>
     (case get_default studente ''nome'' (JStr ''N/D'') of
        Inl e \<Rightarrow> Inl e
      | Inr nome \<Rightarrow>
     (case get_default studente ''cognome'' (JStr ''N/D'') of
        Inl e \<Rightarrow> Inl e
      | Inr cognome \<Rightarrow>
     (case get_default studente ''voti'' (JArr []) of
        Inl e \<Rightarrow> Inl e
      | Inr voti \<Rightarrow>
     (case calcola_media voti of
        Inl e \<Rightarrow> Inl e
      | Inr media \<Rightarrow>
          if printable matricola \<and> printable nome \<and> printable cognome
          then Inr (StudentLine matricola nome cognome media)
          else Inl ValueError)))))"

fun stampa_loop :: "json list \<Rightarrow> world \<Rightarrow> py_exception + world" where
  "stampa_loop [] w = Inr w"
| "stampa_loop (studente # rest) w =
     (case riga_studente studente of
        Inl e \<Rightarrow> Inl e
      | Inr line \<Rightarrow> stampa_loop rest (py_print line w))"

definition stampa_studenti :: "json \<Rightarrow> world \<Rightarrow> py_exception + world" where
  "stampa_studenti studenti w =
     (case py_iter studenti of
        Inl e \<Rightarrow> Inl e
      | Inr items \<Rightarrow> stampa_loop items (py_print ListHeader w))"

definition esegui_processo :: "string \<Rightarrow> world \<Rightarrow> py_exception + world" where
  "esegui_processo percorso_file w =
     (case leggi_studenti_da_file percorso_file w of
        Inl e \<Rightarrow> Inl e
      | Inr (studenti, w1) \<Rightarrow> stampa_studenti studenti w1)"

subsection \<open>\<^verbatim>\<open>aggiungi_studente\<close>\<close>

text \<open>
  The three \<^verbatim>\<open>while True\<close> loops of lines 114 to 132: read a line, strip it, leave
  the loop when it is not empty, print the warning otherwise. Each turn consumes one
  line of the console, so the loop is a recursion on the lines that remain.
\<close>

fun chiedi_loop ::
  "message \<Rightarrow> string list \<Rightarrow> message list \<Rightarrow> py_exception + (string \<times> string list \<times> message list)"
where
  "chiedi_loop warn [] out = Inl EOFError"
| "chiedi_loop warn (l # ls) out =
     (if strip l \<noteq> [] then Inr (strip l, ls, out)
      else chiedi_loop warn ls (out @ [warn]))"

definition chiedi :: "message \<Rightarrow> world \<Rightarrow> py_exception + (string \<times> world)" where
  "chiedi warn w =
     (case chiedi_loop warn (stdin w) (stdout w) of
        Inl e \<Rightarrow> Inl e
      | Inr (v, ls, out) \<Rightarrow> Inr (v, w\<lparr>stdin := ls, stdout := out\<rparr>))"

text \<open>\<^verbatim>\<open>studenti.append(x)\<close>: only a list has \<^verbatim>\<open>append\<close>.\<close>

fun py_append :: "json \<Rightarrow> json \<Rightarrow> py_exception + json" where
  "py_append (JArr xs) x = Inr (JArr (xs @ [x]))"
| "py_append v x = Inl AttributeError"

definition nuovo_studente :: "string \<Rightarrow> string \<Rightarrow> string \<Rightarrow> int list \<Rightarrow> json" where
  "nuovo_studente matricola nome cognome voti =
     JObj [(''matricola'', JStr matricola), (''nome'', JStr nome),
           (''cognome'', JStr cognome), (''voti'', JArr (map JInt voti))]"

text \<open>Lines 133 to 176, once the three fields are read.\<close>

definition aggiungi_con_campi ::
  "string \<Rightarrow> string \<Rightarrow> string \<Rightarrow> string \<Rightarrow> world \<Rightarrow> py_exception + world"
where
  "aggiungi_con_campi percorso_file matricola nome cognome w =
     (case py_input w of
        Inl e \<Rightarrow> Inl e
      | Inr (voti_input, w1) \<Rightarrow>
          (let voti = parse_voti voti_input in
           if voti = [] then Inr (py_print NoValidGrades w1)
           else
             (case leggi_studenti_da_file percorso_file w1 of
                Inl e \<Rightarrow> Inl e
              | Inr (studenti, w2) \<Rightarrow>
                  (case py_append studenti (nuovo_studente matricola nome cognome voti) of
                     Inl e \<Rightarrow> Inl e
                   | Inr studenti' \<Rightarrow>
                       (case scrivi percorso_file studenti' w2 of
                          Inl e \<Rightarrow> Inl e
                        | Inr w3 \<Rightarrow> Inr (py_print (StudentAdded nome cognome) w3))))))"

definition aggiungi_studente :: "string \<Rightarrow> world \<Rightarrow> py_exception + world" where
  "aggiungi_studente percorso_file w =
     (case chiedi EmptyIdWarning w of
        Inl e \<Rightarrow> Inl e
      | Inr (matricola, w1) \<Rightarrow>
     (case chiedi EmptyFirstNameWarning w1 of
        Inl e \<Rightarrow> Inl e
      | Inr (nome, w2) \<Rightarrow>
     (case chiedi EmptyLastNameWarning w2 of
        Inl e \<Rightarrow> Inl e
      | Inr (cognome, w3) \<Rightarrow>
          aggiungi_con_campi percorso_file matricola nome cognome w3)))"

subsection \<open>\<^verbatim>\<open>aggiungi_voto\<close>\<close>

text \<open>
  The search of line 201 and of lines 253 to 257: the index and the value of the first
  element \<open>s\<close> with \<^verbatim>\<open>s.get("matricola") == matricola_input\<close>. The elements after
  the first match are not looked at; \<^verbatim>\<open>get\<close> raises on an element that is not a dict.
\<close>

fun cerca :: "string \<Rightarrow> json list \<Rightarrow> py_exception + (nat \<times> json) option" where
  "cerca matricola_input [] = Inr None"
| "cerca matricola_input (s # rest) =
     (case py_get s ''matricola'' of
        Inl e \<Rightarrow> Inl e
      | Inr v \<Rightarrow>
          if v = Some (JStr matricola_input) then Inr (Some (0, s))
          else
            (case cerca matricola_input rest of
               Inl e \<Rightarrow> Inl e
             | Inr None \<Rightarrow> Inr None
             | Inr (Some (i, s')) \<Rightarrow> Inr (Some (Suc i, s'))))"

text \<open>\<^verbatim>\<open>d[k] = v\<close> on the entries of a dict: an existing key keeps its place.\<close>

fun dict_set :: "string \<Rightarrow> json \<Rightarrow> (string \<times> json) list \<Rightarrow> (string \<times> json) list" where
  "dict_set k v [] = [(k, v)]"
| "dict_set k v (kv # kvs) =
     (if fst kv = k then (k, v) # kvs else kv # dict_set k v kvs)"

text \<open>
  Line 219, \<^verbatim>\<open>studente_trovato.setdefault("voti", []).append(voto)\<close>: the result is the
  dict after the call. A value under \<^verbatim>\<open>"voti"\<close> that is not a list has no \<^verbatim>\<open>append\<close>.
\<close>

fun setdefault_append :: "json \<Rightarrow> int \<Rightarrow> py_exception + json" where
  "setdefault_append (JObj kvs) voto =
     (case map_of kvs ''voti'' of
        None \<Rightarrow> Inr (JObj (dict_set ''voti'' (JArr [JInt voto]) kvs))
      | Some (JArr vs) \<Rightarrow> Inr (JObj (dict_set ''voti'' (JArr (vs @ [JInt voto])) kvs))
      | Some other \<Rightarrow> Inl AttributeError)"
| "setdefault_append v voto = Inl AttributeError"

text \<open>
  The found dict is the element at the found index of the list, and line 219 changes it
  in place: the list then holds the changed dict at that index. A value that is not a
  list never gets here, since the search raises on its first element.
\<close>

fun sostituisci :: "json \<Rightarrow> nat \<Rightarrow> json \<Rightarrow> json" where
  "sostituisci (JArr xs) i s = JArr (xs[i := s])"
| "sostituisci v i s = v"

text \<open>\<^verbatim>\<open>d[k]\<close>: KeyError when the key is absent.\<close>

definition py_item :: "json \<Rightarrow> string \<Rightarrow> py_exception + json" where
  "py_item d k =
     (case py_get d k of
        Inl e \<Rightarrow> Inl TypeError
      | Inr None \<Rightarrow> Inl KeyError
      | Inr (Some v) \<Rightarrow> Inr v)"

text \<open>Lines 208 to 214: \<^verbatim>\<open>int\<close> and the range test; both failures are ValueError.\<close>

definition leggi_voto :: "string \<Rightarrow> py_exception + int" where
  "leggi_voto voto_input =
     (case py_int voto_input of
        Inl e \<Rightarrow> Inl e
      | Inr voto \<Rightarrow> if \<not> (18 \<le> voto \<and> voto \<le> 30) then Inl ValueError else Inr voto)"

definition aggiungi_voto :: "string \<Rightarrow> world \<Rightarrow> py_exception + world" where
  "aggiungi_voto percorso_file w =
     (case leggi_studenti_da_file percorso_file w of
        Inl e \<Rightarrow> Inl e
      | Inr (studenti, w1) \<Rightarrow>
     (case py_input w1 of
        Inl e \<Rightarrow> Inl e
      | Inr (l, w2) \<Rightarrow>
     (let matricola_input = strip l in
      case py_iter studenti of
        Inl e \<Rightarrow> Inl e
      | Inr items \<Rightarrow>
     (case cerca matricola_input items of
        Inl e \<Rightarrow> Inl e
      | Inr None \<Rightarrow> Inr (py_print (StudentNotFound matricola_input) w2)
      | Inr (Some (i, studente_trovato)) \<Rightarrow>
     (case py_input w2 of
        Inl e \<Rightarrow> Inl e
      | Inr (l2, w3) \<Rightarrow>
     (case leggi_voto (strip l2) of
        Inl e \<Rightarrow> Inr (py_print InvalidGrade w3)
      | Inr voto \<Rightarrow>
     (case setdefault_append studente_trovato voto of
        Inl e \<Rightarrow> Inl e
      | Inr studente' \<Rightarrow>
     (case scrivi percorso_file (sostituisci studenti i studente') w3 of
        Inl e \<Rightarrow> Inl e
      | Inr w4 \<Rightarrow>
     (case py_item studente' ''nome'' of
        Inl e \<Rightarrow> Inl e
      | Inr nome \<Rightarrow>
     (case py_str nome of
        Inl e \<Rightarrow> Inl e
      | Inr nome_str \<Rightarrow>
     (case py_item studente' ''cognome'' of
        Inl e \<Rightarrow> Inl e
      | Inr cognome \<Rightarrow>
     (case py_str cognome of
        Inl e \<Rightarrow> Inl e
      | Inr cognome_str \<Rightarrow>
          Inr (py_print (GradeAdded voto nome_str cognome_str) w4)))))))))))))"

subsection \<open>\<^verbatim>\<open>cancella_studente\<close>\<close>

text \<open>\<^verbatim>\<open>s.lower()\<close> for the code points below 256.\<close>

definition lower_char :: "char \<Rightarrow> char" where
  "lower_char c =
     (let n = code c in
      if (65 \<le> n \<and> n \<le> 90) \<or> (192 \<le> n \<and> n \<le> 222 \<and> n \<noteq> 215) then char_of (n + 32) else c)"

definition lower :: "string \<Rightarrow> string" where
  "lower s = map lower_char s"

text \<open>
  \<^verbatim>\<open>studenti.pop(i)\<close>, the list that is left. As for \<open>sostituisci\<close>, only a list gets
  here.
\<close>

fun py_pop :: "json \<Rightarrow> nat \<Rightarrow> json" where
  "py_pop (JArr xs) i = JArr (take i xs @ drop (Suc i) xs)"
| "py_pop v i = v"

definition cancella_studente :: "string \<Rightarrow> world \<Rightarrow> py_exception + world" where
  "cancella_studente percorso_file w =
     (case leggi_studenti_da_file percorso_file w of
        Inl e \<Rightarrow> Inl e
      | Inr (studenti, w1) \<Rightarrow>
     if \<not> truthy studenti then Inr (py_print EmptyRoster w1)
     else
     (case py_input w1 of
        Inl e \<Rightarrow> Inl e
      | Inr (l, w2) \<Rightarrow>
     (let matricola_input = strip l in
      case py_iter studenti of
        Inl e \<Rightarrow> Inl e
      | Inr items \<Rightarrow>
     (case cerca matricola_input items of
        Inl e \<Rightarrow> Inl e
      | Inr None \<Rightarrow> Inr (py_print (StudentNotFound matricola_input) w2)
      | Inr (Some (studente_index, studente)) \<Rightarrow>
     (case get_default studente ''nome'' (JStr ''N/D'') of
        Inl e \<Rightarrow> Inl e
      | Inr nome \<Rightarrow>
     (case py_str nome of
        Inl e \<Rightarrow> Inl e
      | Inr nome_str \<Rightarrow>
     (case get_default studente ''cognome'' (JStr ''N/D'') of
        Inl e \<Rightarrow> Inl e
      | Inr cognome \<Rightarrow>
     (case py_str cognome of
        Inl e \<Rightarrow> Inl e
      | Inr cognome_str \<Rightarrow>
     (case py_input w2 of
        Inl e \<Rightarrow> Inl e
      | Inr (l2, w3) \<Rightarrow>
     (let conferma = lower (strip l2) in
      if conferma \<noteq> ''s'' then Inr (py_print Cancelled w3)
      else
        (case scrivi percorso_file (py_pop studenti studente_index) w3 of
           Inl e \<Rightarrow> Inl e
         | Inr w4 \<Rightarrow> Inr (py_print (StudentRemoved nome_str cognome_str) w4))))))))))))"

section \<open>The operations as the specification words them\<close>

text \<open>
  \<open>parse_grade_list\<close> of the specification: split on commas, trim each piece, keep
  the integer value of the pieces made of decimal digits only whose value lies in
  18 to 30, drop every other piece.
\<close>

definition conforming :: "string \<Rightarrow> bool" where
  "conforming p = (p \<noteq> [] \<and> list_all is_decimal p \<and> 18 \<le> digits_value p \<and> digits_value p \<le> 30)"

definition spec_parse_grade_list :: "string \<Rightarrow> int list" where
  "spec_parse_grade_list raw =
     map digits_value (filter conforming (map strip (split CHR '','' raw)))"

text \<open>
  A piece that passes \<^verbatim>\<open>isdigit\<close> and that \<^verbatim>\<open>int\<close> rejects: all its characters are
  digits, and one of them is not a decimal digit or there are more than 4300 of them.
\<close>

definition unconvertible :: "string \<Rightarrow> bool" where
  "unconvertible p = (isdigit p \<and> (\<not> list_all is_decimal p \<or> max_str_digits < length p))"

text \<open>
  \<open>average\<close> of the specification on one element: an element counts when it is
  numeric, that is an integer or a decimal number; a boolean is not a number.
\<close>

fun spec_numeric :: "json \<Rightarrow> bool" where
  "spec_numeric (JInt n) = True"
| "spec_numeric (JFloat r) = True"
| "spec_numeric v = False"



text \<open>The value shown for a field of a record: the value under the key, \<^verbatim>\<open>N/D\<close> when absent.\<close>

definition campo :: "(string \<times> json) list \<Rightarrow> string \<Rightarrow> json" where
  "campo kvs k = (case map_of kvs k of None \<Rightarrow> JStr ''N/D'' | Some v \<Rightarrow> v)"

definition voti_di :: "(string \<times> json) list \<Rightarrow> json" where
  "voti_di kvs = (case map_of kvs ''voti'' of None \<Rightarrow> JArr [] | Some v \<Rightarrow> v)"

text \<open>
  \<open>list_students\<close> of the specification for one record: the three fields, with the
  string \<^verbatim>\<open>N/A\<close> for an absent one, and the average of the grades.
\<close>

definition spec_field :: "(string \<times> json) list \<Rightarrow> string \<Rightarrow> json" where
  "spec_field kvs k = (case map_of kvs k of None \<Rightarrow> JStr ''N/A'' | Some v \<Rightarrow> v)"

definition spec_list_entry :: "(string \<times> json) list \<Rightarrow> py_exception + message" where
  "spec_list_entry kvs =
     (case calcola_media (voti_di kvs) of
        Inl e \<Rightarrow> Inl e
      | Inr media \<Rightarrow>
          Inr (StudentLine (spec_field kvs ''matricola'') (spec_field kvs ''nome'')
                 (spec_field kvs ''cognome'') media))"

section \<open>Example data\<close>

definition ana :: json where
  "ana = nuovo_studente ''S1'' ''Ana'' ''Li'' [20, 22]"

definition bo :: json where
  "bo = nuovo_studente ''S2'' ''Bo'' ''Xu'' [30]"

text \<open>A world whose only file is \<^verbatim>\<open>registro.txt\<close>, with the given console lines.\<close>

definition registro :: "file_state \<Rightarrow> string list \<Rightarrow> message list \<Rightarrow> world" where
  "registro f ls out =
     \<lparr>files = (\<lambda>p. if p = ''registro.txt'' then f else Missing), stdin = ls, stdout = out\<rparr>"

section \<open>Loading the store file\<close>

lemma leggi_missing_or_not_json:
  "files w p = Missing \<or> files w p = NotJson \<Longrightarrow>
   leggi_studenti_da_file p w = Inr (JArr [], py_print LoadError w)"
  by (auto simp: leggi_studenti_da_file_def)

text \<open>
  Claim C1 says that for every store file that is missing or whose content is not valid
  JSON, \<open>leggi_studenti_da_file\<close> returns an empty Roster and raises nothing. A file
  whose bytes are not UTF-8 is such a file, and on it the function raises
  UnicodeDecodeError, which the \<^verbatim>\<open>except\<close> clause of line 31 does not catch.
\<close>

theorem leggi_not_utf8_raises:
  "leggi_studenti_da_file ''registro.txt'' \<lparr>files = (\<lambda>p. NotUtf8), stdin = [], stdout = []\<rparr>
   = Inl UnicodeDecodeError"
  by (simp add: leggi_studenti_da_file_def)

text \<open>
  Claim C10: when the store file holds valid JSON, \<open>leggi_studenti_da_file\<close> returns the
  decoded value as it is, whatever its shape (an object, a string, a number), prints
  nothing, and \<open>esegui_processo\<close> hands that value to \<open>stampa_studenti\<close> unchecked.
\<close>

theorem leggi_returns_decoded_value:
  "files w p = Holds v \<Longrightarrow>
   leggi_studenti_da_file p w = Inr (v, w) \<and> esegui_processo p w = stampa_studenti v w"
  by (simp add: leggi_studenti_da_file_def esegui_processo_def)

theorem leggi_returns_decoded_value_witness:
  "leggi_studenti_da_file ''registro.txt''
     \<lparr>files = (\<lambda>p. Holds (JObj [(''a'', JInt 1)])), stdin = [], stdout = []\<rparr>
   = Inr (JObj [(''a'', JInt 1)],
          \<lparr>files = (\<lambda>p. Holds (JObj [(''a'', JInt 1)])), stdin = [], stdout = []\<rparr>)"
  using leggi_returns_decoded_value
    [of "\<lparr>files = (\<lambda>p. Holds (JObj [(''a'', JInt 1)])), stdin = [], stdout = []\<rparr>"
        "''registro.txt''" "JObj [(''a'', JInt 1)]"]
  by simp

lemma esegui_processo_on_object:
  "esegui_processo ''registro.txt''
     \<lparr>files = (\<lambda>p. Holds (JObj [(''a'', JInt 1)])), stdin = [], stdout = []\<rparr>
   = Inl AttributeError"
  by (simp add: esegui_processo_def leggi_studenti_da_file_def stampa_studenti_def
        riga_studente_def get_default_def)

section \<open>The average\<close>

lemma py_sum_without_floats:
  "\<not> list_ex is_float xs \<Longrightarrow> py_sum (Some a) xs = Inr (Some (a + sum_list (map int_value xs)))"
  by (induction xs arbitrary: a) (simp_all add: add.assoc)

lemma calcola_media_without_floats:
  assumes "\<not> list_ex is_float grades"
  shows "calcola_media (JArr grades) =
     (let voti_validi = filter is_int_or_float grades;
          s = sum_list (map int_value voti_validi);
          n = length voti_validi
      in if voti_validi = [] then Inr MediaZero
         else if too_large (real_of_int s / real n) then Inl OverflowError
         else Inr (MediaInt s n))"
proof -
  have "\<not> list_ex is_float (filter is_int_or_float grades)"
    using assms by (auto simp: list_ex_iff)
  then show ?thesis
    by (simp add: calcola_media_def py_sum_without_floats Let_def)
qed

lemma calcola_media_no_numeric:
  "filter is_int_or_float grades = [] \<Longrightarrow> calcola_media (JArr grades) = Inr MediaZero"
  by (simp add: calcola_media_def)

lemma calcola_media_mixed:
  "calcola_media (JArr [JInt 20, JStr ''x'', JInt 22, JNull, JInt 25]) = Inr (MediaInt 67 3)"
  by (simp add: calcola_media_def too_large_def)

lemma calcola_media_overflow:
  "calcola_media (JArr [JInt (10 ^ 309)]) = Inl OverflowError"
  by (simp add: calcola_media_def too_large_def)

lemma calcola_media_float:
  "calcola_media (JArr [JInt 20, JFloat (3 / 2)]) = Inr (MediaFloat [JInt 20, JFloat (3 / 2)])"
  by (simp add: calcola_media_def too_large_def)

text \<open>
  Claim C3 says that \<open>calcola_media\<close> returns the mean of exactly the numeric elements
  and drops the others. On the grades \<^verbatim>\<open>[True, 30]\<close> the code keeps the boolean,
  counts it as 1 and returns the double nearest to 31 / 2; with the boolean dropped,
  as the claim has it, the result is 30 / 1.
\<close>

theorem calcola_media_counts_bool:
  "calcola_media (JArr [JBool True, JInt 30]) = Inr (MediaInt 31 2)
   \<and> calcola_media (JArr (filter spec_numeric [JBool True, JInt 30])) = Inr (MediaInt 30 1)"
  by (simp add: calcola_media_def too_large_def)

section \<open>Parsing the grade list\<close>

lemma underscore_not_decimal: "\<not> is_decimal CHR ''_''"
  by (simp add: is_decimal_def code_def)

lemma decimal_is_digit: "is_decimal c \<Longrightarrow> is_digit_char c"
  by (simp add: is_decimal_def is_digit_char_def Let_def)

lemma int_body_decimal: "s \<noteq> [] \<Longrightarrow> list_all is_decimal s \<Longrightarrow> int_body s"
  by (induction s rule: int_body.induct) (auto simp: underscore_not_decimal)

lemma int_body_chars: "int_body s \<Longrightarrow> list_all (\<lambda>c. is_decimal c \<or> c = CHR ''_'') s"
  by (induction s rule: int_body.induct) (auto split: if_splits)

lemma filter_decimal: "list_all is_decimal s \<Longrightarrow> filter (\<lambda>c. c \<noteq> CHR ''_'') s = s"
  by (induction s) (auto simp: underscore_not_decimal)

lemma digit_not_sign:
  "is_digit_char c \<Longrightarrow> c \<noteq> CHR ''-'' \<and> c \<noteq> CHR ''+'' \<and> c \<noteq> CHR ''_''"
  by (auto simp: is_digit_char_def code_def)

lemma digit_not_space: "is_digit_char c \<Longrightarrow> \<not> int_isspace c"
  by (auto simp: is_digit_char_def int_isspace_def Let_def)

lemma digits_not_stripped:
  assumes "list_all is_digit_char s"
  shows "rev (dropWhile int_isspace (rev (dropWhile int_isspace s))) = s"
proof -
  have ns: "\<forall>c\<in>set s. \<not> int_isspace c"
    using assms digit_not_space by (auto simp: list_all_iff)
  have 1: "dropWhile int_isspace s = s"
    using ns by (cases s) auto
  have 2: "dropWhile int_isspace (rev s) = rev s"
    using ns by (cases s rule: rev_cases) auto
  show ?thesis by (simp add: 1 2)
qed

lemma py_int_digits:
  assumes "s \<noteq> []" "list_all is_digit_char s"
  shows "py_int s = int_unsigned s"
proof -
  obtain c cs where s: "s = c # cs" using assms(1) by (cases s) auto
  have "is_digit_char c" using assms(2) s by simp
  then have "c \<noteq> CHR ''-''" "c \<noteq> CHR ''+''" using digit_not_sign by auto
  then show ?thesis
    using digits_not_stripped [OF assms(2)] by (simp add: py_int_def s)
qed

lemma py_int_decimal:
  assumes "s \<noteq> []" "list_all is_decimal s" "length s \<le> max_str_digits"
  shows "py_int s = Inr (digits_value s)"
proof -
  have "list_all is_digit_char s"
    using assms(2) decimal_is_digit by (auto simp: list_all_iff)
  with assms(1) have "py_int s = int_unsigned s" by (rule py_int_digits)
  also have "\<dots> = Inr (digits_value s)"
    using assms by (simp add: int_unsigned_def int_body_decimal filter_decimal)
  finally show ?thesis .
qed

lemma py_int_unconvertible:
  assumes "unconvertible s"
  shows "py_int s = Inl ValueError"
proof -
  from assms have ne: "s \<noteq> []" and dg: "list_all is_digit_char s"
    and bad: "\<not> list_all is_decimal s \<or> max_str_digits < length s"
    by (auto simp: unconvertible_def isdigit_def)
  have eq: "py_int s = int_unsigned s" using ne dg by (rule py_int_digits)
  show ?thesis
  proof (cases "list_all is_decimal s")
    case True
    with bad have "max_str_digits < length s" by simp
    then show ?thesis using True by (simp add: eq int_unsigned_def filter_decimal)
  next
    case False
    have "\<not> int_body s"
    proof
      assume "int_body s"
      then have "list_all (\<lambda>c. is_decimal c \<or> c = CHR ''_'') s" by (rule int_body_chars)
      with dg have "list_all is_decimal s"
        using digit_not_sign by (auto simp: list_all_iff)
      with False show False by simp
    qed
    then show ?thesis by (simp add: eq int_unsigned_def)
  qed
qed

lemma comprehension_voti_eq:
  "comprehension_voti vs =
     (if list_ex unconvertible (map strip vs) then Inl ValueError
      else Inr (map digits_value (filter conforming (map strip vs))))"
proof (induction vs)
  case Nil
  show ?case by simp
next
  case (Cons v vs)
  show ?case
  proof (cases "isdigit (strip v)")
    case False
    then have "\<not> unconvertible (strip v)" "\<not> conforming (strip v)"
      by (auto simp: unconvertible_def conforming_def isdigit_def list_all_iff decimal_is_digit)
    with False Cons show ?thesis by simp
  next
    case True
    show ?thesis
    proof (cases "unconvertible (strip v)")
      case u: True
      then show ?thesis using True by (simp add: py_int_unconvertible)
    next
      case nu: False
      with True have dec: "list_all is_decimal (strip v)"
        and len: "length (strip v) \<le> max_str_digits"
        by (auto simp: unconvertible_def)
      from True have ne: "strip v \<noteq> []" by (simp add: isdigit_def)
      have pi: "py_int (strip v) = Inr (digits_value (strip v))"
        using ne dec len by (rule py_int_decimal)
      have cf: "conforming (strip v) \<longleftrightarrow>
                18 \<le> digits_value (strip v) \<and> digits_value (strip v) \<le> 30"
        using ne dec by (simp add: conforming_def)
      show ?thesis using True pi nu cf Cons by simp
    qed
  qed
qed

lemma parse_voti_characterisation:
  "parse_voti raw =
     (if list_ex unconvertible (map strip (split CHR '','' raw)) then []
      else spec_parse_grade_list raw)"
  by (simp add: parse_voti_def comprehension_voti_eq spec_parse_grade_list_def)

lemmas string_eval =
  isdigit_def strip_def py_isspace_def int_isspace_def code_def is_digit_char_def py_int_def
  int_unsigned_def is_decimal_def digits_value_def conforming_def unconvertible_def
  max_str_digits_def

lemma parse_voti_example: "parse_voti ''24, bad, 17, 31, 26'' = [24, 26]"
  by (simp add: parse_voti_def string_eval)

text \<open>
  Claim C4 says that every piece is kept or dropped on its own. On the input \<^verbatim>\<open>24,\<close>
  followed by U+00B2 the piece \<^verbatim>\<open>24\<close> conforms and the specification keeps it; the
  second piece passes \<^verbatim>\<open>isdigit\<close>, \<^verbatim>\<open>int\<close> raises ValueError on it, line 146 catches
  the exception and the code returns the empty list.
\<close>

theorem parse_voti_superscript_drops_all:
  "parse_voti [CHR ''2'', CHR ''4'', CHR '','', CHR 0xB2] = [] \<and>
   spec_parse_grade_list [CHR ''2'', CHR ''4'', CHR '','', CHR 0xB2] = [24]"
  by (simp add: parse_voti_def spec_parse_grade_list_def string_eval)

section \<open>Shared facts about the console, the store and the search\<close>



lemma chiedi_preserves_files: "chiedi warn w = Inr (v, w1) \<Longrightarrow> files w1 = files w"
  by (auto simp: chiedi_def split: sum.splits prod.splits)



lemma get_default_dict: "get_default (JObj kvs) k (JStr ''N/D'') = Inr (campo kvs k)"
  by (simp add: get_default_def campo_def split: option.splits)

lemma get_default_voti: "get_default (JObj kvs) ''voti'' (JArr []) = Inr (voti_di kvs)"
  by (simp add: get_default_def voti_di_def split: option.splits)

lemma small_lt_limit: "n \<le> 30 \<Longrightarrow> n < str_limit"
proof -
  assume "n \<le> 30"
  moreover have "(30::int) < 10 ^ 2" by simp
  moreover have "(10::int) ^ 2 \<le> 10 ^ 4300" by (rule power_increasing) simp_all
  ultimately have "n < 10 ^ 4300" by (rule order.strict_trans1 [OF _ order.strict_trans2])
  then show ?thesis by (simp only: str_limit_def)
qed

lemma small_printable: "\<bar>n\<bar> \<le> 30 \<Longrightarrow> printable (JInt n)"
  by (simp only: printable.simps small_lt_limit)






lemmas world_eval = registro_def py_print_def salva_def scrivi_def py_str_def py_input_def
  chiedi_def leggi_studenti_da_file_def ana_def bo_def nuovo_studente_def small_lt_limit

lemmas run_eval = world_eval cancella_studente_def aggiungi_voto_def get_default_def
  strip_def py_isspace_def int_isspace_def code_def lower_def lower_char_def
  campo_def leggi_voto_def py_int_def int_unsigned_def is_decimal_def digits_value_def
  py_item_def max_str_digits_def

section \<open>Adding a student\<close>

lemma set_split: "p \<in> set (split sep s) \<Longrightarrow> set p \<subseteq> set s"
proof (induction s arbitrary: p)
  case Nil
  then show ?case by simp
next
  case (Cons c cs)
  show ?case
  proof (cases "c = sep")
    case True
    with Cons show ?thesis by auto
  next
    case False
    obtain q qs where sp: "split sep cs = q # qs"
      by (cases "split sep cs") (auto, cases cs, auto split: if_splits list.splits)
    with False Cons.prems have "p = c # q \<or> p \<in> set qs" by auto
    then show ?thesis using Cons.IH sp by fastforce
  qed
qed

lemma set_strip: "set (strip s) \<subseteq> set s"
proof -
  have "set (strip s) \<subseteq> set (dropWhile py_isspace s)"
    unfolding strip_def using set_dropWhileD by fastforce
  also have "\<dots> \<subseteq> set s" using set_dropWhileD by fastforce
  finally show ?thesis .
qed

lemma comprehension_no_digit_pieces:
  "\<forall>v\<in>set vs. \<not> isdigit (strip v) \<Longrightarrow> comprehension_voti vs = Inr []"
  by (induction vs) simp_all

lemma parse_voti_no_digits:
  assumes "\<not> list_ex is_digit_char raw"
  shows "parse_voti raw = []"
proof -
  have "\<not> isdigit (strip v)" if "v \<in> set (split CHR '','' raw)" for v
  proof
    assume "isdigit (strip v)"
    then obtain c where "c \<in> set (strip v)" "is_digit_char c"
      by (cases "strip v") (auto simp: isdigit_def)
    moreover have "set (strip v) \<subseteq> set raw"
      using set_strip set_split [OF that] by blast
    ultimately show False using assms by (auto simp: list_ex_iff)
  qed
  then show ?thesis
    by (simp add: parse_voti_def comprehension_no_digit_pieces)
qed

lemma chiedi_loop_blanks:
  "list_all (\<lambda>l. strip l = []) blanks \<Longrightarrow> strip l \<noteq> [] \<Longrightarrow>
   chiedi_loop warn (blanks @ l # rest) out
     = Inr (strip l, rest, out @ replicate (length blanks) warn)"
  by (induction blanks arbitrary: out) (simp_all add: replicate_app_Cons_same)

lemma chiedi_blanks:
  "stdin w = blanks @ l # rest \<Longrightarrow> list_all (\<lambda>l. strip l = []) blanks \<Longrightarrow> strip l \<noteq> [] \<Longrightarrow>
   chiedi warn w
     = Inr (strip l, w\<lparr>stdin := rest, stdout := stdout w @ replicate (length blanks) warn\<rparr>)"
  by (simp add: chiedi_def chiedi_loop_blanks)

text \<open>
  Claim C5: when the grade list parsed from the input is empty, \<open>aggiungi_studente\<close>
  prints the message of line 151 and returns at line 152: the store file is not read and
  not written, so no record is added and nothing is persisted. The console holds, for
  each of the three fields, any number of blank lines and then a line that is not blank,
  and after them the line of the grades.
\<close>

theorem aggiungi_studente_no_valid_grades:
  assumes "stdin w = b1 @ l1 # b2 @ l2 # b3 @ l3 # raw # rest"
    and "list_all (\<lambda>l. strip l = []) b1" and "strip l1 \<noteq> []"
    and "list_all (\<lambda>l. strip l = []) b2" and "strip l2 \<noteq> []"
    and "list_all (\<lambda>l. strip l = []) b3" and "strip l3 \<noteq> []"
    and "parse_voti raw = []"
  shows "aggiungi_studente p w
     = Inr (w\<lparr>stdin := rest,
              stdout := stdout w @ replicate (length b1) EmptyIdWarning
                @ replicate (length b2) EmptyFirstNameWarning
                @ replicate (length b3) EmptyLastNameWarning @ [NoValidGrades]\<rparr>)"
proof -
  let ?w1 = "w\<lparr>stdin := b2 @ l2 # b3 @ l3 # raw # rest,
               stdout := stdout w @ replicate (length b1) EmptyIdWarning\<rparr>"
  let ?w2 = "?w1\<lparr>stdin := b3 @ l3 # raw # rest,
               stdout := stdout ?w1 @ replicate (length b2) EmptyFirstNameWarning\<rparr>"
  let ?w3 = "?w2\<lparr>stdin := raw # rest,
               stdout := stdout ?w2 @ replicate (length b3) EmptyLastNameWarning\<rparr>"
  have 1: "chiedi EmptyIdWarning w = Inr (strip l1, ?w1)"
    using assms(1,2,3) by (rule chiedi_blanks)
  have 2: "chiedi EmptyFirstNameWarning ?w1 = Inr (strip l2, ?w2)"
    using assms(4,5) by (intro chiedi_blanks) simp_all
  have 3: "chiedi EmptyLastNameWarning ?w2 = Inr (strip l3, ?w3)"
    using assms(6,7) by (intro chiedi_blanks) simp_all
  have 4: "py_input ?w3 = Inr (raw, ?w3\<lparr>stdin := rest\<rparr>)"
    by (simp add: py_input_def)
  show ?thesis
    using 1 2 3 4 assms(8)
    by (simp add: aggiungi_studente_def aggiungi_con_campi_def py_print_def)
qed

theorem aggiungi_studente_no_valid_grades_witness:
  "aggiungi_studente ''registro.txt''
     (registro (Holds (JArr [ana])) [''  '', ''S2'', ''Bo'', '''', ''Xu'', ''x, 17''] [])
   = Inr (registro (Holds (JArr [ana])) []
            [EmptyIdWarning, EmptyLastNameWarning, NoValidGrades])"
proof -
  let ?w = "registro (Holds (JArr [ana])) [''  '', ''S2'', ''Bo'', '''', ''Xu'', ''x, 17''] []"
  have 1: "stdin ?w = [''  ''] @ ''S2'' # [] @ ''Bo'' # [''''] @ ''Xu'' # ''x, 17'' # []"
    by (simp add: registro_def)
  have 2: "list_all (\<lambda>l. strip l = []) [''  '']" "strip ''S2'' \<noteq> []"
    "list_all (\<lambda>l. strip l = []) []" "strip ''Bo'' \<noteq> []"
    "list_all (\<lambda>l. strip l = []) ['''']" "strip ''Xu'' \<noteq> []"
    by (simp_all add: strip_def py_isspace_def code_def)
  have 3: "parse_voti ''x, 17'' = []"
    by (simp add: parse_voti_def string_eval)
  show ?thesis
    using aggiungi_studente_no_valid_grades [OF 1 2 3, of "''registro.txt''"]
    by (simp add: registro_def)
qed

lemma aggiungi_studente_empty_grades:
  "aggiungi_studente ''registro.txt'' (registro (Holds (JArr [ana])) [''S2'', ''Bo'', ''Xu'', ''''] [])
   = Inr (registro (Holds (JArr [ana])) [] [NoValidGrades])"
  by (simp add: aggiungi_studente_def aggiungi_con_campi_def parse_voti_def world_eval string_eval)

section \<open>Adding a grade\<close>



lemma aggiungi_voto_scenario:
  "aggiungi_voto ''registro.txt'' (registro (Holds (JArr [ana])) [''S1'', ''25''] [])
     = Inr (registro (Holds (JArr [nuovo_studente ''S1'' ''Ana'' ''Li'' [20, 22, 25]])) []
              [GradeAdded 25 (JStr ''Ana'') (JStr ''Li'')])"
  by (simp add: run_eval fun_eq_iff)

section \<open>Deleting a student\<close>





lemma cancella_one_record:
  "cancella_studente ''registro.txt'' (registro (Holds (JArr [ana])) [''S1'', '' s ''] [])
   = Inr (registro (Holds (JArr [])) [] [StudentRemoved (JStr ''Ana'') (JStr ''Li'')])"
  by (simp add: run_eval fun_eq_iff)

lemma lower_upper_s: "lower (strip '' S '') = ''s''"
  by code_simp




section \<open>Listing the students\<close>

lemma riga_studente_dict:
  "riga_studente (JObj kvs) =
     (case calcola_media (voti_di kvs) of
        Inl e \<Rightarrow> Inl e
      | Inr media \<Rightarrow>
          if printable (campo kvs ''matricola'') \<and> printable (campo kvs ''nome'')
             \<and> printable (campo kvs ''cognome'')
          then Inr (StudentLine (campo kvs ''matricola'') (campo kvs ''nome'')
                      (campo kvs ''cognome'') media)
          else Inl ValueError)"
  by (simp add: riga_studente_def get_default_dict get_default_voti)

lemma stampa_loop_lines:
  "map riga_studente xs = map Inr lines \<Longrightarrow>
   stampa_loop xs w = Inr (w\<lparr>stdout := stdout w @ lines\<rparr>)"
proof (induction xs arbitrary: w lines)
  case Nil
  then show ?case by simp
next
  case (Cons x xs)
  then obtain y ys where l: "lines = y # ys" by (cases lines) auto
  with Cons.prems have r: "riga_studente x = Inr y" "map riga_studente xs = map Inr ys"
    by auto
  show ?case using Cons.IH [OF r(2)] r(1) l by (simp add: py_print_def)
qed

text \<open>
  Claim C9, as amended: \<open>stampa_studenti\<close> only prints. When every record yields a
  line, it prints the header and these lines in order and changes neither the store files
  nor the console input; the line of a record holds the average that \<open>calcola_media\<close>
  gives for its grades and, for each of \<^verbatim>\<open>matricola\<close>, \<^verbatim>\<open>nome\<close> and \<^verbatim>\<open>cognome\<close>, the
  value in the record or the string \<^verbatim>\<open>N/D\<close> when the key is absent (a value that
  cannot be turned into text raises ValueError).
\<close>

theorem stampa_studenti_projection:
  "(map riga_studente xs = map Inr lines \<longrightarrow>
      stampa_studenti (JArr xs) w = Inr (w\<lparr>stdout := stdout w @ ListHeader # lines\<rparr>))
   \<and> riga_studente (JObj kvs) =
       (case calcola_media (voti_di kvs) of
          Inl e \<Rightarrow> Inl e
        | Inr media \<Rightarrow>
            if printable (campo kvs ''matricola'') \<and> printable (campo kvs ''nome'')
               \<and> printable (campo kvs ''cognome'')
            then Inr (StudentLine (campo kvs ''matricola'') (campo kvs ''nome'')
                        (campo kvs ''cognome'') media)
            else Inl ValueError)"
  by (simp add: stampa_studenti_def stampa_loop_lines py_print_def riga_studente_dict)

theorem stampa_studenti_projection_witness:
  "stampa_studenti (JArr [ana, JObj []]) (registro (Holds (JArr [ana, JObj []])) [] [])
   = Inr (registro (Holds (JArr [ana, JObj []])) []
       [ListHeader, StudentLine (JStr ''S1'') (JStr ''Ana'') (JStr ''Li'') (MediaInt 42 2),
        StudentLine (JStr ''N/D'') (JStr ''N/D'') (JStr ''N/D'') MediaZero])"
proof -
  have 1: "map riga_studente [ana, JObj []]
      = map Inr [StudentLine (JStr ''S1'') (JStr ''Ana'') (JStr ''Li'') (MediaInt 42 2),
                 StudentLine (JStr ''N/D'') (JStr ''N/D'') (JStr ''N/D'') MediaZero]"
    by (simp add: riga_studente_def get_default_def calcola_media_def too_large_def world_eval)
  show ?thesis
    using stampa_studenti_projection
      [where xs = "[ana, JObj []]"
         and lines = "[StudentLine (JStr ''S1'') (JStr ''Ana'') (JStr ''Li'') (MediaInt 42 2),
                 StudentLine (JStr ''N/D'') (JStr ''N/D'') (JStr ''N/D'') MediaZero]"
         and w = "registro (Holds (JArr [ana, JObj []])) [] []"] 1
    by (simp add: registro_def)
qed

text \<open>
  The claim as it is written fails on a record without fields: the code shows \<^verbatim>\<open>N/D\<close>
  where the claim has \<^verbatim>\<open>N/A\<close>.
\<close>

theorem riga_studente_default_counterexample:
  "riga_studente (JObj [])
     = Inr (StudentLine (JStr ''N/D'') (JStr ''N/D'') (JStr ''N/D'') MediaZero)
   \<and> spec_list_entry []
     = Inr (StudentLine (JStr ''N/A'') (JStr ''N/A'') (JStr ''N/A'') MediaZero)"
  by (simp add: riga_studente_def get_default_def calcola_media_def spec_list_entry_def
        spec_field_def voti_di_def)


end
